theory Spec2Isabelle
  imports Complex_Main "HOL-Library.Char_ord" "HOL-Library.List_Lexorder"
begin

section \<open>JavaScript values\<close>

text \<open>
  The library reads the process environment and hands JavaScript values back to its
  callers. A value is one of the primitive kinds, an array of values, or a function
  or other object that is no array, known by a name (\<open>JObj\<close>; such a value has no
  method \<open>split\<close>). Symbols are not modelled. Strings are sequences of 8-bit
  characters (code points below 256).

  A number is a double. Every double is \<open>NaN\<close>, an infinity, minus zero, or a rational
  (\<open>Fin 0\<close> is plus zero), so \<open>jsnum\<close> holds every double. Reading a number from a
  string and printing a number round to and from doubles; both conversions are taken
  from the runtime (see \<open>world\<close> below) instead of being rebuilt here.
\<close>

datatype jsnum = NaN | PosInf | NegInf | NegZero | Fin rat

datatype jsval =
    JUndefined
  | JNull
  | JBool bool
  | JNum jsnum
  | JStr string
  | JArr "jsval list"
  | JObj string

text \<open>The test a conditional \<open>v ? a : b\<close> makes on \<open>v\<close>.\<close>

fun truthy :: "jsval \<Rightarrow> bool" where
  "truthy JUndefined = False"
| "truthy JNull = False"
| "truthy (JBool b) = b"
| "truthy (JNum n) = (n \<noteq> NaN \<and> n \<noteq> NegZero \<and> n \<noteq> Fin 0)"
| "truthy (JStr s) = (s \<noteq> [])"
| "truthy (JArr xs) = True"
| "truthy (JObj name) = True"

datatype error = TypeError

section \<open>The runtime outside the library\<close>

text \<open>
  What \<open>src/index.js\<close> imports from Node and from its dependencies and cannot be read
  from the repository: the working directory, \<open>path.resolve\<close>, the reader and parser
  of a \<open>.env\<close> file behind \<open>dotenv.config\<close> (the parsed pairs of the file at a path,
  \<open>None\<close> when it cannot be read or parsed), \<open>os-locale\<close> with and without a spawned
  process (the empty string for a falsy answer), \<open>semver.coerce\<close> on a string
  (\<open>None\<close> for its \<open>null\<close>), and the two number conversions: the reading of a
  trimmed string as a number at the end of lodash's \<open>toNumber\<close> (binary and octal
  literals through \<open>parseInt\<close>, \<open>NaN\<close> for a signed hexadecimal literal, unary plus
  otherwise, hence \<open>NaN\<close> for text that is no numeric literal) and the language's
  printing of a number.

  lodash's \<open>get\<close> and \<open>set\<close> take a property path. What they do with a key that is
  one property name is modelled below; where they split the key into a path and walk
  it through the values they meet, their result is taken from the runtime:
  \<open>walkPath\<close> is what \<open>get\<close> reaches (\<open>JUndefined\<close> for \<open>undefined\<close>), \<open>setPath\<close> the
  environment \<open>set\<close> leaves behind. So are the conversions of a function or object to
  a string (\<open>value + ''\<close>) and to a number (lodash's \<open>toNumber\<close>).

  \<open>getObject\<close> is left out: it only passes the resolved value to \<open>autoParse\<close> of the
  package \<open>@lykmapipo/common\<close>, whose code is not among the repository's files.
\<close>

record semver =
  major :: nat
  minor :: nat
  patch :: nat

record world =
  cwd :: string
  resolve :: "string \<Rightarrow> string \<Rightarrow> string"
  readEnvFile :: "string \<Rightarrow> (string \<rightharpoonup> string) option"
  osLocale :: string
  osLocaleNoSpawn :: string
  coerce :: "string \<Rightarrow> semver option"
  strToNum :: "string \<Rightarrow> jsnum"
  numToStr :: "jsnum \<Rightarrow> string"
  walkPath :: "(string \<rightharpoonup> string) \<Rightarrow> string \<Rightarrow> jsval"
  setPath :: "(string \<rightharpoonup> string) \<Rightarrow> string \<Rightarrow> jsval \<Rightarrow> (string \<rightharpoonup> string)"
  objToStr :: "string \<Rightarrow> string"
  objToNum :: "string \<Rightarrow> jsnum"

section \<open>The process: environment and one-time loader\<close>

text \<open>
  \<open>process.env\<close> maps names to strings. \<open>loaded\<close> is the cell of lodash's \<open>once\<close>:
  \<open>None\<close> until the wrapped function has run, then its result. \<open>file_reads\<close> counts
  the calls of the file reader, the side effect a test would observe with a mock.
\<close>

datatype load_result = Parsed "string \<rightharpoonup> string" | LoadError

record process =
  env :: "string \<rightharpoonup> string"
  loaded :: "load_result option"
  file_reads :: nat

text \<open>
  \<open>dotenv.config({ path })\<close>: read and parse the file; a parsed key is written to the
  environment only when the environment does not have it; every failure is caught and
  returned as the result.
\<close>

definition loadEnv :: "world \<Rightarrow> string \<Rightarrow> process \<Rightarrow> load_result \<times> process" where
  "loadEnv w path s =
     (case readEnvFile w path of
        None \<Rightarrow> (LoadError, s\<lparr>file_reads := file_reads s + 1\<rparr>)
      | Some parsed \<Rightarrow>
          (Parsed parsed, s\<lparr>env := parsed ++ env s, file_reads := file_reads s + 1\<rparr>))"

text \<open>The function \<open>load\<close> wraps: \<open>BASE_PATH || cwd\<close>, then the \<open>.env\<close> file under it.\<close>

definition load_body :: "world \<Rightarrow> process \<Rightarrow> load_result \<times> process" where
  "load_body w s =
     (let BASE_PATH = (case env s ''BASE_PATH'' of
                         Some b \<Rightarrow> if b \<noteq> [] then b else cwd w
                       | None \<Rightarrow> cwd w);
          path = resolve w BASE_PATH ''.env''
      in loadEnv w path s)"

text \<open>
  Modelled from the spec: \<open>once\<close> is lodash's and not among the repository's files.
  \<open>load\<close> wraps the repository's function \<open>load_body\<close> in it the way the spec
  describes the initializer: the first call runs the function and keeps its result;
  "All subsequent calls perform no work and yield the memoized result from the first
  call."
\<close>

definition load :: "world \<Rightarrow> process \<Rightarrow> load_result \<times> process" where
  "load w s =
     (case loaded s of
        Some r \<Rightarrow> (r, s)
      | None \<Rightarrow> (let (r, s') = load_body w s in (r, s'\<lparr>loaded := Some r\<rparr>)))"

text \<open>
  A property of \<open>process.env\<close>: a variable of the environment, or else a property
  inherited from \<open>Object.prototype\<close>. The inherited ones are functions, and
  \<open>__proto__\<close> is the prototype itself; each is named here by its property name.
\<close>

definition object_prototype_names :: "string list" where
  "object_prototype_names =
     [''constructor'', ''__defineGetter__'', ''__defineSetter__'', ''hasOwnProperty'',
      ''__lookupGetter__'', ''__lookupSetter__'', ''isPrototypeOf'',
      ''propertyIsEnumerable'', ''toString'', ''valueOf'', ''__proto__'',
      ''toLocaleString'']"

text \<open>\<open>key in process.env\<close> and \<open>process.env[key]\<close>\<close>

definition has_property :: "(string \<rightharpoonup> string) \<Rightarrow> string \<Rightarrow> bool" where
  "has_property obj key \<longleftrightarrow> obj key \<noteq> None \<or> key \<in> set object_prototype_names"

definition property :: "(string \<rightharpoonup> string) \<Rightarrow> string \<Rightarrow> jsval" where
  "property obj key =
     (case obj key of
        Some v \<Rightarrow> JStr v
      | None \<Rightarrow> if key \<in> set object_prototype_names then JObj key else JUndefined)"

text \<open>
  lodash's \<open>isKey\<close> decides whether a string is one property name or a path:
  \<open>reIsPlainProp.test(value) || !reIsDeepProp.test(value) || value in Object(object)\<close>.
  \<open>reIsPlainProp\<close> accepts a string of word characters (letters, digits, underscore).
  \<open>reIsDeepProp\<close> finds a dot, or an opening bracket with, after it, either text
  without brackets or a quoted string, and a closing bracket. That is: a dot, or an
  opening bracket with a closing bracket somewhere after it (between the last opening
  bracket before the first such closing bracket and that closing bracket there is text
  without brackets).
\<close>

definition is_word_char :: "char \<Rightarrow> bool" where
  "is_word_char c \<longleftrightarrow>
     (let n = (of_char c :: nat)
      in (48 \<le> n \<and> n \<le> 57) \<or> (65 \<le> n \<and> n \<le> 90) \<or> n = 95 \<or> (97 \<le> n \<and> n \<le> 122))"

definition reIsPlainProp :: "string \<Rightarrow> bool" where
  "reIsPlainProp key \<longleftrightarrow> list_all is_word_char key"

definition reIsDeepProp :: "string \<Rightarrow> bool" where
  "reIsDeepProp key \<longleftrightarrow>
     CHR ''.'' \<in> set key \<or> CHR '']'' \<in> set (dropWhile (\<lambda>c. c \<noteq> CHR ''['') key)"

definition isKey :: "string \<Rightarrow> (string \<rightharpoonup> string) \<Rightarrow> bool" where
  "isKey key obj \<longleftrightarrow> reIsPlainProp key \<or> \<not> reIsDeepProp key \<or> has_property obj key"

text \<open>
  lodash's \<open>get(object, key, default)\<close> on the environment: the property under a key
  that is one property name, else what walking the path reaches; the default when that
  is \<open>undefined\<close>.
\<close>

definition baseGet :: "world \<Rightarrow> (string \<rightharpoonup> string) \<Rightarrow> string \<Rightarrow> jsval" where
  "baseGet w obj key = (if isKey key obj then property obj key else walkPath w obj key)"

definition grab :: "world \<Rightarrow> (string \<rightharpoonup> string) \<Rightarrow> string \<Rightarrow> jsval \<Rightarrow> jsval" where
  "grab w obj key defaultValue =
     (let result = baseGet w obj key
      in if result = JUndefined then defaultValue else result)"

definition get :: "world \<Rightarrow> process \<Rightarrow> string \<Rightarrow> jsval \<Rightarrow> jsval \<times> process" where
  "get w s key defaultValue =
     (let (r, s') = load w s;
          value = grab w (env s') key defaultValue
      in (value, s'))"

section \<open>Strings and arrays\<close>

text \<open>
  The white space \<open>\s\<close> of a regular expression, below code point 256: tab, line feed,
  vertical tab, form feed, carriage return, space and no-break space.
\<close>

definition is_space :: "char \<Rightarrow> bool" where
  "is_space c \<longleftrightarrow>
     c = CHR 0x09 \<or> c = CHR 0x0A \<or> c = CHR 0x0B \<or> c = CHR 0x0C \<or> c = CHR 0x0D
     \<or> c = CHR 0x20 \<or> c = CHR 0xA0"

text \<open>\<open>string.replace(/^\s+|\s+$/g, '')\<close>\<close>

definition trim_ws :: "string \<Rightarrow> string" where
  "trim_ws s = rev (dropWhile is_space (rev (dropWhile is_space s)))"

text \<open>\<open>Array.prototype.join\<close> on an array of strings.\<close>

fun join :: "string \<Rightarrow> string list \<Rightarrow> string" where
  "join sep [] = []"
| "join sep [x] = x"
| "join sep (x # y # ys) = x @ sep @ join sep (y # ys)"

text \<open>
  \<open>String.prototype.split\<close> with a one-character separator: \<open>cur\<close> is the piece being
  read (reversed). The result always has at least one piece.
\<close>

fun split_loop :: "char \<Rightarrow> string \<Rightarrow> string \<Rightarrow> string list" where
  "split_loop sep cur [] = [rev cur]"
| "split_loop sep cur (c # cs) =
     (if c = sep then rev cur # split_loop sep [] cs else split_loop sep (c # cur) cs)"

definition split_str :: "string \<Rightarrow> char \<Rightarrow> string list" where
  "split_str s sep = split_loop sep [] s"

text \<open>\<open>String.prototype.toLowerCase\<close>, below code point 256.\<close>

definition lower_char :: "char \<Rightarrow> char" where
  "lower_char c =
     (let n = (of_char c :: nat)
      in if (65 \<le> n \<and> n \<le> 90) \<or> (192 \<le> n \<and> n \<le> 222 \<and> n \<noteq> 215)
         then char_of (n + 32) else c)"

text \<open>
  lodash's \<open>toString\<close>: the empty string for \<open>null\<close> and \<open>undefined\<close>, else
  \<open>baseToString\<close>, which keeps a string, joins an array's converted elements with
  commas, and concatenates anything else with the empty string (printing minus zero
  as \<open>-0\<close>).
\<close>

fun baseToString :: "world \<Rightarrow> jsval \<Rightarrow> string" where
  "baseToString w (JStr s) = s"
| "baseToString w (JArr xs) = join '','' (map (baseToString w) xs)"
| "baseToString w JUndefined = ''undefined''"
| "baseToString w JNull = ''null''"
| "baseToString w (JBool b) = (if b then ''true'' else ''false'')"
| "baseToString w (JNum n) =
     (let result = numToStr w n
      in if result = ''0'' \<and> n = NegZero then ''-0'' else result)"
| "baseToString w (JObj name) = objToStr w name"

definition toString :: "world \<Rightarrow> jsval \<Rightarrow> string" where
  "toString w v = (if v = JUndefined \<or> v = JNull then [] else baseToString w v)"

text \<open>
  The language's own conversion of a value to a string (\<open>value + ''\<close>): an array joins
  its elements with commas, \<open>null\<close> and \<open>undefined\<close> elements printing as nothing.
\<close>

fun js_string :: "world \<Rightarrow> jsval \<Rightarrow> string" where
  "js_string w (JStr s) = s"
| "js_string w (JArr xs) =
     join '','' (map (\<lambda>x. if x = JUndefined \<or> x = JNull then [] else js_string w x) xs)"
| "js_string w JUndefined = ''undefined''"
| "js_string w JNull = ''null''"
| "js_string w (JBool b) = (if b then ''true'' else ''false'')"
| "js_string w (JNum n) = numToStr w n"
| "js_string w (JObj name) = objToStr w name"

text \<open>
  \<open>set\<close> returns the value it was given. lodash's \<open>set\<close> assigns to \<open>process.env\<close>,
  which stores the value converted to a string by the language, when the key is one
  property name; an empty key, a path, and the names lodash may refuse
  (\<open>__proto__\<close>, \<open>constructor\<close>, \<open>prototype\<close>) are left to \<open>setPath\<close>. Either way only
  the environment changes. \<open>clear\<close> deletes the keys one after the other.
\<close>

definition set_env :: "world \<Rightarrow> process \<Rightarrow> string \<Rightarrow> jsval \<Rightarrow> jsval \<times> process" where
  "set_env w s key value =
     (value,
      s\<lparr>env := (if key \<noteq> [] \<and> isKey key (env s)
                     \<and> key \<notin> set [''__proto__'', ''constructor'', ''prototype'']
                  then (env s)(key \<mapsto> js_string w value)
                  else setPath w (env s) key value)\<rparr>)"

fun clear :: "process \<Rightarrow> string list \<Rightarrow> process" where
  "clear s [] = s"
| "clear s (key # keys) = clear (s\<lparr>env := (env s)(key := None)\<rparr>) keys"

text \<open>
  lodash's \<open>toNumber\<close>: a number is returned as it is; an array is first turned into
  a string (an array's \<open>valueOf\<close> is the array); a function or other object is
  converted by \<open>objToNum\<close>; a string is trimmed and read as a number (\<open>strToNum\<close>, which yields
  \<open>NaN\<close> for text that is no numeric literal); \<open>undefined\<close> is \<open>NaN\<close>, \<open>null\<close> and
  \<open>false\<close> are 0, \<open>true\<close> is 1.
\<close>

definition toNumber :: "world \<Rightarrow> jsval \<Rightarrow> jsnum" where
  "toNumber w v =
     (case v of
        JNum n \<Rightarrow> n
      | JArr xs \<Rightarrow> strToNum w (trim_ws (js_string w v))
      | JObj name \<Rightarrow> objToNum w name
      | JStr x \<Rightarrow> strToNum w (trim_ws x)
      | JUndefined \<Rightarrow> NaN
      | JNull \<Rightarrow> Fin 0
      | JBool b \<Rightarrow> (if b then Fin 1 else Fin 0))"

text \<open>
  lodash's \<open>trim\<close> as \<open>map\<close> calls it (index and array as second and third argument):
  the value is converted with \<open>toString\<close> and its white space removed at both ends.
\<close>

definition trim :: "world \<Rightarrow> jsval \<Rightarrow> string" where
  "trim w v = trim_ws (toString w v)"

text \<open>lodash's \<open>toLower\<close>.\<close>

definition toLower :: "world \<Rightarrow> jsval \<Rightarrow> string" where
  "toLower w v = map lower_char (toString w v)"

text \<open>lodash's \<open>compact\<close>: the falsy elements are dropped.\<close>

definition compact_js :: "jsval list \<Rightarrow> jsval list" where
  "compact_js xs = filter truthy xs"

text \<open>
  lodash's \<open>uniq\<close>: an element is appended to the result unless the result holds it
  already. (The elements compared here are strings, where lodash's comparison is
  equality.)
\<close>

fun uniq_loop :: "'a list \<Rightarrow> 'a list \<Rightarrow> 'a list" where
  "uniq_loop result [] = result"
| "uniq_loop result (x # xs) =
     (if x \<in> set result then uniq_loop result xs else uniq_loop (result @ [x]) xs)"

definition uniq :: "'a list \<Rightarrow> 'a list" where
  "uniq xs = uniq_loop [] xs"

text \<open>\<open>[].concat(value)\<close>: an array argument contributes its elements, any other one itself.\<close>

definition concat_onto_empty :: "jsval \<Rightarrow> jsval list" where
  "concat_onto_empty v = (case v of JArr xs \<Rightarrow> xs | _ \<Rightarrow> [v])"

text \<open>A method call \<open>value.split(sep)\<close>: a \<open>TypeError\<close> on a value that is no string.\<close>

definition split_method :: "jsval \<Rightarrow> char \<Rightarrow> error + string list" where
  "split_method v sep = (case v of JStr x \<Rightarrow> Inr (split_str x sep) | _ \<Rightarrow> Inl TypeError)"

text \<open>
  A natural number printed in decimal: how the language prints a version component, an
  integer below \<open>2^53\<close>.
\<close>

fun show_nat :: "nat \<Rightarrow> string" where
  "show_nat n =
     (if n < 10 then [char_of (48 + n)]
      else show_nat (n div 10) @ [char_of (48 + n mod 10)])"

declare show_nat.simps [simp del]

section \<open>Scalar coercers\<close>

definition mapToNumber :: "world \<Rightarrow> jsval \<Rightarrow> jsnum" where
  "mapToNumber w v = toNumber w v"

definition mapToString :: "world \<Rightarrow> jsval \<Rightarrow> string" where
  "mapToString w v = toString w v"

section \<open>Composite coercers\<close>

text \<open>
  \<open>getArray\<close>: the default's items, then (for a non-empty key) the comma-separated
  pieces of the variable, read with the empty string as default; every item trimmed;
  falsy items dropped; duplicates dropped.
\<close>

definition getArray ::
  "world \<Rightarrow> process \<Rightarrow> string \<Rightarrow> jsval \<Rightarrow> (error + jsval list) \<times> process" where
  "getArray w s key defaultValue =
     (let value = concat_onto_empty defaultValue;
          (value, s') =
            (if key \<noteq> [] then
               (let (raw, s') = get w s key (JStr [])
                in (case split_method raw CHR '','' of
                      Inl e \<Rightarrow> Inl e
                    | Inr pieces \<Rightarrow> Inr (value @ map JStr pieces), s'))
             else (Inr value, s))
      in (case value of
            Inl e \<Rightarrow> Inl e
          | Inr value \<Rightarrow> Inr (uniq (compact_js (map (\<lambda>v. JStr (trim w v)) value))), s'))"

definition getNumbers ::
  "world \<Rightarrow> process \<Rightarrow> string \<Rightarrow> jsval \<Rightarrow> (error + jsnum list) \<times> process" where
  "getNumbers w s key defaultValue =
     (let (numbers, s') = getArray w s key defaultValue
      in (case numbers of
            Inl e \<Rightarrow> Inl e
          | Inr numbers \<Rightarrow> Inr (map (mapToNumber w) numbers), s'))"

definition getNumber :: "world \<Rightarrow> process \<Rightarrow> string \<Rightarrow> jsval \<Rightarrow> jsval \<times> process" where
  "getNumber w s key defaultValue =
     (let (value, s') = get w s key defaultValue;
          value = (if truthy value then JNum (mapToNumber w value) else value)
      in (value, s'))"

definition getString :: "world \<Rightarrow> process \<Rightarrow> string \<Rightarrow> jsval \<Rightarrow> jsval \<times> process" where
  "getString w s key defaultValue =
     (let (value, s') = get w s key defaultValue;
          value = (if truthy value then JStr (mapToString w value) else value)
      in (value, s'))"




definition getBoolean :: "world \<Rightarrow> process \<Rightarrow> string \<Rightarrow> jsval \<Rightarrow> jsval \<times> process" where
  "getBoolean w s key defaultValue =
     (let (value, s') = get w s key defaultValue;
          value = (if value = JStr ''false'' then JBool False else value);
          value = (if value = JStr ''true'' then JBool True else value);
          value = (if truthy value then JBool (truthy value) else value)
      in (value, s'))"

section \<open>Environment predicates\<close>

definition is_env :: "world \<Rightarrow> process \<Rightarrow> jsval \<Rightarrow> bool \<times> process" where
  "is_env w s name =
     (let (value, s') = get w s ''NODE_ENV'' JUndefined
      in (toLower w value = toLower w name, s'))"

definition isTest :: "world \<Rightarrow> process \<Rightarrow> bool \<times> process" where
  "isTest w s = is_env w s (JStr ''test'')"

definition isDevelopment :: "world \<Rightarrow> process \<Rightarrow> bool \<times> process" where
  "isDevelopment w s = is_env w s (JStr ''development'')"

definition isProduction :: "world \<Rightarrow> process \<Rightarrow> bool \<times> process" where
  "isProduction w s = is_env w s (JStr ''production'')"

definition isLocal :: "world \<Rightarrow> process \<Rightarrow> bool \<times> process" where
  "isLocal w s =
     (let (t, s') = isTest w s
      in if t then (True, s') else isDevelopment w s')"

definition isHeroku :: "world \<Rightarrow> process \<Rightarrow> bool \<times> process" where
  "isHeroku w s =
     (let (value, s') = get w s ''RUNTIME_ENV'' JUndefined
      in (toLower w value = ''heroku'', s'))"

section \<open>Derived value builders\<close>

text \<open>
  The options of \<open>apiVersion\<close>; \<open>None\<close> is a property left out or \<open>undefined\<close>, which
  lodash's \<open>merge\<close> does not copy over the default.
\<close>

record api_options =
  version :: "string option"
  prefix :: "string option"
  allow_major :: "bool option"
  allow_minor :: "bool option"
  allow_patch :: "bool option"

definition merged :: "'a \<Rightarrow> 'a option \<Rightarrow> 'a" where
  "merged dflt given = (case given of None \<Rightarrow> dflt | Some v \<Rightarrow> v)"

text \<open>\<open>semver.coerce\<close> on a value: a number is printed first, any other non-string is \<open>null\<close>.\<close>

definition coerce_value :: "world \<Rightarrow> jsval \<Rightarrow> semver option" where
  "coerce_value w v =
     (case v of JStr x \<Rightarrow> coerce w x | JNum n \<Rightarrow> coerce w (numToStr w n) | _ \<Rightarrow> None)"

text \<open>
  \<open>apiVersion\<close>. Reading \<open>parsedVersion.major\<close> when \<open>coerce\<close> returned \<open>null\<close> throws a
  \<open>TypeError\<close>, which nothing in the function catches.
\<close>

definition apiVersion :: "world \<Rightarrow> process \<Rightarrow> api_options \<Rightarrow> (error + string) \<times> process" where
  "apiVersion w s optns =
     (let version' = merged ''1.0.0'' (version optns);
          prefix' = merged ''v'' (prefix optns);
          minor' = merged False (allow_minor optns);
          patch' = merged False (allow_patch optns);
          (raw, s') = getString w s ''API_VERSION'' (JStr version')
      in case coerce_value w raw of
           None \<Rightarrow> (Inl TypeError, s')
         | Some parsedVersion \<Rightarrow>
             (let parsedApiVersion = show_nat (major parsedVersion);
                  parsedApiVersion =
                    (if minor'
                     then join ''.'' [show_nat (major parsedVersion),
                                      show_nat (minor parsedVersion)]
                     else parsedApiVersion);
                  parsedApiVersion =
                    (if patch'
                     then join ''.'' [show_nat (major parsedVersion),
                                      show_nat (minor parsedVersion),
                                      show_nat (patch parsedVersion)]
                     else parsedApiVersion)
              in (Inr (prefix' @ parsedApiVersion), s')))"

definition getLocale :: "world \<Rightarrow> process \<Rightarrow> string option \<Rightarrow> jsval \<times> process" where
  "getLocale w s defaultLocale =
     (let defaultLocale' = merged ''sw'' defaultLocale;
          locale = (if osLocale w \<noteq> [] then osLocale w
                    else if osLocaleNoSpawn w \<noteq> [] then osLocaleNoSpawn w
                    else defaultLocale')
      in getString w s ''DEFAULT_LOCALE'' (JStr locale))"

text \<open>\<open>getLocale().split(sep)\<close>\<close>

definition locale_parts :: "world \<Rightarrow> process \<Rightarrow> char \<Rightarrow> (error + string list) \<times> process" where
  "locale_parts w s sep =
     (let (locale, s') = getLocale w s None in (split_method locale sep, s'))"

text \<open>
  One of the two blocks \<open>if (sizeOf(getLocale().split(sep)) > 1) { countryCode =
  last(getLocale().split(sep)); }\<close> of \<open>getCountryCode\<close>.
\<close>

definition country_from_parts ::
  "world \<Rightarrow> process \<Rightarrow> char \<Rightarrow> jsval \<Rightarrow> (error + jsval) \<times> process" where
  "country_from_parts w s sep countryCode =
     (case locale_parts w s sep of
        (Inl e, s1) \<Rightarrow> (Inl e, s1)
      | (Inr parts, s1) \<Rightarrow>
          if length parts > 1 then
            (case locale_parts w s1 sep of
               (Inl e, s2) \<Rightarrow> (Inl e, s2)
             | (Inr parts', s2) \<Rightarrow> (Inr (JStr (last parts')), s2))
          else (Inr countryCode, s1))"

definition getCountryCode ::
  "world \<Rightarrow> process \<Rightarrow> string option \<Rightarrow> (error + jsval) \<times> process" where
  "getCountryCode w s defaultCountryCode =
     (let countryCode = JStr (merged ''TZ'' defaultCountryCode)
      in case country_from_parts w s CHR ''_'' countryCode of
           (Inl e, s1) \<Rightarrow> (Inl e, s1)
         | (Inr countryCode, s1) \<Rightarrow>
             (case country_from_parts w s1 CHR ''-'' countryCode of
                (Inl e, s2) \<Rightarrow> (Inl e, s2)
              | (Inr countryCode, s2) \<Rightarrow>
                  (let (countryCode, s3) = getString w s2 ''DEFAULT_COUNTRY_CODE'' countryCode
                   in (Inr countryCode, s3))))"

section \<open>Calls over the life of a process\<close>

datatype call =
    Load
  | Get string jsval
  | SetEnv string jsval
  | Clear "string list"

fun step :: "world \<Rightarrow> process \<Rightarrow> call \<Rightarrow> process" where
  "step w s Load = snd (load w s)"
| "step w s (Get key d) = snd (get w s key d)"
| "step w s (SetEnv key v) = snd (set_env w s key v)"
| "step w s (Clear keys) = clear s keys"

definition run :: "world \<Rightarrow> process \<Rightarrow> call list \<Rightarrow> process" where
  "run w s cs = foldl (step w) s cs"

text \<open>A process that has not called \<open>load\<close> yet.\<close>

definition fresh :: "(string \<rightharpoonup> string) \<Rightarrow> process" where
  "fresh e = \<lparr>env = e, loaded = None, file_reads = 0\<rparr>"

section \<open>What the specification says, as definitions\<close>




text \<open>
  The specification of \<open>apiVersion\<close>'s output: \<open>major.minor.patch\<close> when \<open>patch\<close> is set,
  else \<open>major.minor\<close> when \<open>minor\<close> is set, else \<open>major\<close>.
\<close>

definition format_version :: "semver \<Rightarrow> bool \<Rightarrow> bool \<Rightarrow> string" where
  "format_version v with_minor with_patch =
     (if with_patch
      then show_nat (major v) @ ''.'' @ show_nat (minor v) @ ''.'' @ show_nat (patch v)
      else if with_minor then show_nat (major v) @ ''.'' @ show_nat (minor v)
      else show_nat (major v))"

text \<open>
  The specification of the locale (\<open>DEFAULT_LOCALE\<close> if set, else the detected locale,
  else \<open>sw\<close>) and of the country code derived from a locale: the last part after a
  hyphen, else the last part after an underscore, else the default.
\<close>

definition runtime_locale :: "world \<Rightarrow> (string \<rightharpoonup> string) \<Rightarrow> string" where
  "runtime_locale w store =
     (case store ''DEFAULT_LOCALE'' of
        Some v \<Rightarrow> v
      | None \<Rightarrow> if osLocale w \<noteq> [] then osLocale w
                else if osLocaleNoSpawn w \<noteq> [] then osLocaleNoSpawn w
                else ''sw'')"

definition country_of :: "string \<Rightarrow> string \<Rightarrow> string" where
  "country_of locale dflt =
     (if length (split_str locale CHR ''-'') > 1 then last (split_str locale CHR ''-'')
      else if length (split_str locale CHR ''_'') > 1 then last (split_str locale CHR ''_'')
      else dflt)"

text \<open>
  The keys for which \<open>get\<close> reads the store and nothing else: a key that is present
  in the store (a variable hides what the key would otherwise reach), or a key without
  path syntax that names no inherited property (\<open>direct_key\<close>).
\<close>

definition direct_key :: "string \<Rightarrow> bool" where
  "direct_key key \<longleftrightarrow> \<not> reIsDeepProp key \<and> key \<notin> set object_prototype_names"

definition reads_store :: "(string \<rightharpoonup> string) \<Rightarrow> string \<Rightarrow> bool" where
  "reads_store store key \<longleftrightarrow> store key \<noteq> None \<or> direct_key key"

text \<open>The loader's invariant: the file has been read exactly when the cell is filled.\<close>

definition once_inv :: "process \<Rightarrow> bool" where
  "once_inv s \<longleftrightarrow> (case loaded s of None \<Rightarrow> file_reads s = 0 | Some r \<Rightarrow> file_reads s = 1)"

section \<open>A concrete runtime for the examples\<close>

text \<open>
  The examples below run in this runtime: working directory \<open>/app\<close>, a \<open>.env\<close> file
  there that defines \<open>FROM_FILE\<close> and \<open>PORT\<close>, the OS locale \<open>en_US\<close>, and the
  dependencies' answers on the few inputs the examples give them (\<open>semver.coerce\<close> on
  \<open>2.3.4\<close> and \<open>1.0.0\<close>, \<open>null\<close> on text without a digit; the number conversions on
  \<open>0\<close>, \<open>11\<close> and on text that is no number; lodash's \<open>get\<close> on the path
  \<open>A.length\<close>, the length of the variable \<open>A\<close>; a native function printed and read
  as a number).
\<close>

definition example_coerce :: "string \<Rightarrow> semver option" where
  "example_coerce x =
     (if x = ''2.3.4'' then Some \<lparr>major = 2, minor = 3, patch = 4\<rparr>
      else if x = ''1.0.0'' then Some \<lparr>major = 1, minor = 0, patch = 0\<rparr>
      else None)"

definition example_strToNum :: "string \<Rightarrow> jsnum" where
  "example_strToNum x =
     (if x = [] \<or> x = ''0'' then Fin 0 else if x = ''11'' then Fin 11 else NaN)"

definition example_numToStr :: "jsnum \<Rightarrow> string" where
  "example_numToStr n =
     (if n = Fin 0 \<or> n = NegZero then ''0'' else if n = Fin 11 then ''11'' else ''NaN'')"

definition example_walkPath :: "(string \<rightharpoonup> string) \<Rightarrow> string \<Rightarrow> jsval" where
  "example_walkPath store key =
     (if key = ''A.length''
      then (case store ''A'' of
              Some v \<Rightarrow> JNum (Fin (of_nat (length v)))
            | None \<Rightarrow> JUndefined)
      else JUndefined)"

definition example_file :: "string \<rightharpoonup> string" where
  "example_file = [''FROM_FILE'' \<mapsto> ''yes'', ''PORT'' \<mapsto> ''11'']"

definition example_world :: world where
  "example_world =
     \<lparr>cwd = ''/app'',
      resolve = (\<lambda>dir file. dir @ ''/'' @ file),
      readEnvFile = (\<lambda>path. if path = ''/app/.env'' then Some example_file else None),
      osLocale = ''en_US'',
      osLocaleNoSpawn = [],
      coerce = example_coerce,
      strToNum = example_strToNum,
      numToStr = example_numToStr,
      walkPath = example_walkPath,
      setPath = (\<lambda>store key value. store),
      objToStr = (\<lambda>name. ''function '' @ name @ ''() { [native code] }''),
      objToNum = (\<lambda>name. NaN)\<rparr>"

section \<open>The loader and the store accessor\<close>

lemma load_again: "load w (snd (load w s)) = load w s"
  by (auto simp: load_def Let_def split: option.splits prod.splits)

lemma load_loaded: "loaded (snd (load w s)) \<noteq> None"
  by (auto simp: load_def Let_def split: option.splits prod.splits)

lemma load_ready: "loaded s = Some r \<Longrightarrow> load w s = (r, s)"
  by (simp add: load_def)

lemma load_snd_idem: "snd (load w (snd (load w s))) = snd (load w s)"
  by (simp add: load_again)

lemma load_fst_memo: "loaded (snd (load w s)) = Some (fst (load w s))"
  by (auto simp: load_def Let_def split: option.splits prod.splits)

lemma load_file_reads:
  "file_reads (snd (load w s)) = (if loaded s = None then file_reads s + 1 else file_reads s)"
  by (auto simp: load_def load_body_def loadEnv_def Let_def split: option.splits)

lemma get_eq: "get w s key d = (grab w (env (snd (load w s))) key d, snd (load w s))"
  by (simp add: get_def Let_def split: prod.splits)

lemma get_snd: "snd (get w s key d) = snd (load w s)"
  by (simp add: get_eq)

text \<open>
  Where \<open>get\<close> reads the store: a key that is present is one property name, since
  \<open>key in process.env\<close> holds, and its property is the variable; an absent direct key
  is one property name without a property.
\<close>

lemma grab_present: "obj key = Some v \<Longrightarrow> grab w obj key d = JStr v"
  by (simp add: grab_def baseGet_def isKey_def has_property_def property_def)

lemma grab_direct_absent: "direct_key key \<Longrightarrow> obj key = None \<Longrightarrow> grab w obj key d = d"
  by (simp add: grab_def baseGet_def isKey_def property_def direct_key_def)

lemma grab_reads_store:
  "reads_store obj key \<Longrightarrow>
   grab w obj key d = (case obj key of None \<Rightarrow> d | Some v \<Rightarrow> JStr v)"
  by (cases "obj key") (auto simp: reads_store_def grab_present grab_direct_absent)

lemma reads_store_direct: "direct_key key \<Longrightarrow> reads_store obj key"
  by (simp add: reads_store_def)


lemma direct_fixed_keys:
  "direct_key ''API_VERSION''"
  "direct_key ''NODE_ENV''"
  "direct_key ''RUNTIME_ENV''"
  "direct_key ''DEFAULT_LOCALE''"
  "direct_key ''DEFAULT_COUNTRY_CODE''"
  by (simp_all add: direct_key_def reIsDeepProp_def object_prototype_names_def)

lemma clear_loaded: "loaded (clear s keys) = loaded s"
  by (induction keys arbitrary: s) auto

lemma clear_file_reads: "file_reads (clear s keys) = file_reads s"
  by (induction keys arbitrary: s) auto

text \<open>Once the cell is filled, no call empties it or reads the file again.\<close>

lemma step_memo:
  "loaded s = Some r \<Longrightarrow>
   loaded (step w s c) = Some r \<and> file_reads (step w s c) = file_reads s"
  by (cases c) (auto simp: load_ready get_snd set_env_def clear_loaded clear_file_reads)

lemma run_memo:
  "loaded s = Some r \<Longrightarrow>
   loaded (run w s cs) = Some r \<and> file_reads (run w s cs) = file_reads s"
  unfolding run_def
proof (induction cs arbitrary: s)
  case Nil
  then show ?case by simp
next
  case (Cons c cs)
  from Cons.prems step_memo [of s r w c]
  have "loaded (step w s c) = Some r" and "file_reads (step w s c) = file_reads s" by auto
  with Cons.IH [of "step w s c"] show ?case by simp
qed

lemma once_inv_step: "once_inv s \<Longrightarrow> once_inv (step w s c)"
proof (cases "loaded s")
  case None
  assume "once_inv s"
  with None have z: "file_reads s = 0" by (simp add: once_inv_def)
  have l: "once_inv (snd (load w s))"
    using load_loaded [of w s] load_file_reads [of w s] None z
    by (auto simp: once_inv_def split: option.splits)
  show ?thesis
    using None z l
    by (cases c) (auto simp: get_snd set_env_def once_inv_def clear_loaded clear_file_reads)
next
  case (Some r)
  assume "once_inv s"
  with Some step_memo [of s r w c] show ?thesis by (simp add: once_inv_def)
qed

lemma once_inv_run: "once_inv s \<Longrightarrow> once_inv (run w s cs)"
  unfolding run_def by (induction cs arbitrary: s) (auto intro: once_inv_step)

lemma once_inv_fresh: "once_inv (fresh e)"
  by (simp add: once_inv_def fresh_def)

lemma once_inv_le: "once_inv s \<Longrightarrow> file_reads s \<le> 1"
  by (auto simp: once_inv_def split: option.splits)

text \<open>The example process: what the store holds once the \<open>.env\<close> file is loaded.\<close>

lemma example_load:
  "snd (load example_world (fresh e)) =
     \<lparr>env = example_file ++ e, loaded = Some (Parsed example_file), file_reads = 1\<rparr>"
  if "e ''BASE_PATH'' = None"
  using that
  by (simp add: load_def load_body_def loadEnv_def fresh_def example_world_def Let_def)

section \<open>The coercers, characterised\<close>







lemma toString_JStr: "toString w (JStr x) = x"
  by (simp add: toString_def)










lemma getString_JStr:
  assumes "reads_store (env (snd (load w s))) key"
  shows "getString w s key (JStr x) =
     (JStr (case env (snd (load w s)) key of None \<Rightarrow> x | Some v \<Rightarrow> v), snd (load w s))"
  using assms
  by (auto simp: getString_def get_eq grab_reads_store mapToString_def toString_JStr
           split: option.splits)

lemmas getString_fixed =
  getString_JStr [OF reads_store_direct [OF direct_fixed_keys(1)]]
  getString_JStr [OF reads_store_direct [OF direct_fixed_keys(4)]]
  getString_JStr [OF reads_store_direct [OF direct_fixed_keys(5)]]

lemma apiVersion_eq:
  assumes "env (snd (load w s)) ''API_VERSION'' = None"
    and "coerce w (merged ''1.0.0'' (version optns)) = Some v"
  shows "apiVersion w s optns =
           (Inr (merged ''v'' (prefix optns) @
                 format_version v (merged False (allow_minor optns))
                                  (merged False (allow_patch optns))),
            snd (load w s))"
  using assms
  by (simp add: apiVersion_def getString_fixed coerce_value_def format_version_def Let_def)

lemma show_nat_234: "show_nat 2 = ''2''" "show_nat 3 = ''3''" "show_nat 4 = ''4''"
  by code_simp+

lemma getLocale_eq:
  "getLocale w s None = (JStr (runtime_locale w (env (snd (load w s)))), snd (load w s))"
  by (simp add: getLocale_def getString_fixed runtime_locale_def merged_def Let_def)

lemma locale_parts_eq:
  "locale_parts w s sep =
     (Inr (split_str (runtime_locale w (env (snd (load w s)))) sep), snd (load w s))"
  by (simp add: locale_parts_def getLocale_eq split_method_def)

lemma country_from_parts_eq:
  "country_from_parts w s sep c =
     (Inr (let parts = split_str (runtime_locale w (env (snd (load w s)))) sep
           in if length parts > 1 then JStr (last parts) else c),
      snd (load w s))"
  by (simp add: country_from_parts_def locale_parts_eq load_snd_idem Let_def)

lemma getCountryCode_eq:
  "getCountryCode w s dcc =
     (Inr (JStr (case env (snd (load w s)) ''DEFAULT_COUNTRY_CODE'' of
                   Some v \<Rightarrow> v
                 | None \<Rightarrow> country_of (runtime_locale w (env (snd (load w s))))
                                      (merged ''TZ'' dcc))),
      snd (load w s))"
  by (simp add: getCountryCode_def country_from_parts_eq load_snd_idem Let_def getString_fixed
                country_of_def split: option.splits)

lemma example_world_fields:
  "cwd example_world = ''/app''"
  "osLocale example_world = ''en_US''"
  "osLocaleNoSpawn example_world = []"
  "coerce example_world = example_coerce"
  "strToNum example_world = example_strToNum"
  "numToStr example_world = example_numToStr"
  "walkPath example_world = example_walkPath"
  by (simp_all add: example_world_def)

text \<open>
  A stored string that is no number comes back from \<open>getNumber\<close> as \<open>NaN\<close>: the
  sentinel is returned, nothing is thrown.
\<close>

lemma getNumber_nan_sentinel:
  assumes "env (snd (load w s)) key = Some v" and "v \<noteq> []"
    and "strToNum w (trim_ws v) = NaN"
  shows "fst (getNumber w s key d) = JNum NaN"
  using assms by (simp add: getNumber_def get_eq grab_present mapToNumber_def toNumber_def)

section \<open>Claims\<close>

subsection \<open>The store accessor\<close>

lemma direct_example_keys:
  "direct_key ''EMPTY''" "direct_key ''ZERO''" "direct_key ''ABSENT''" "direct_key ''PORT''"
  "direct_key ''K''"
  by (simp_all add: direct_key_def reIsDeepProp_def object_prototype_names_def)




subsection \<open>The initializer\<close>

text \<open>
  C5. A second call of \<open>load\<close> returns what the first returned and changes nothing, so
  two calls are one call. Whatever calls a process has made since it started, the file
  has been read at most once. After the first \<open>load\<close>, and after any further calls of
  \<open>load\<close>, \<open>get\<close>, \<open>set\<close> and \<open>clear\<close>, \<open>load\<close> still returns the first result and reads
  no file.
\<close>

theorem load_once:
  "load w (snd (load w s)) = load w s
   \<and> run w s [Load, Load] = run w s [Load]
   \<and> file_reads (run w (fresh e) cs) \<le> 1
   \<and> fst (load w (run w (snd (load w s)) cs)) = fst (load w s)
   \<and> file_reads (snd (load w (run w (snd (load w s)) cs))) = file_reads (snd (load w s))"
proof -
  have a: "load w (snd (load w s)) = load w s"
    by (rule load_again)
  have b: "run w s [Load, Load] = run w s [Load]"
    by (simp add: run_def load_snd_idem)
  have c: "file_reads (run w (fresh e) cs) \<le> 1"
    by (rule once_inv_le, rule once_inv_run, rule once_inv_fresh)
  have m: "loaded (snd (load w s)) = Some (fst (load w s))"
    by (rule load_fst_memo)
  from run_memo [OF m, of w cs]
  have m': "loaded (run w (snd (load w s)) cs) = Some (fst (load w s))"
    and r': "file_reads (run w (snd (load w s)) cs) = file_reads (snd (load w s))"
    by auto
  have d: "fst (load w (run w (snd (load w s)) cs)) = fst (load w s)"
    by (simp add: load_ready [OF m'])
  have e: "file_reads (snd (load w (run w (snd (load w s)) cs))) = file_reads (snd (load w s))"
    by (simp add: load_ready [OF m'] r')
  from a b c d e show ?thesis by blast
qed

theorem load_once_witness:
  "file_reads (run example_world (fresh Map.empty)
     [Load, Get ''PORT'' JUndefined, Clear [''PORT''], Load, SetEnv ''BASE_PATH'' (JStr ''/tmp''), Load]) \<le> 1
   \<and> file_reads (snd (load example_world (fresh Map.empty))) = 1
   \<and> fst (load example_world (run example_world (snd (load example_world (fresh Map.empty)))
            [Clear [''PORT''], SetEnv ''BASE_PATH'' (JStr ''/tmp'')])) = Parsed example_file"
  using load_once [of example_world "fresh Map.empty" Map.empty
      "[Load, Get ''PORT'' JUndefined, Clear [''PORT''], Load, SetEnv ''BASE_PATH'' (JStr ''/tmp''), Load]"]
    load_once [of example_world "fresh Map.empty" Map.empty
      "[Clear [''PORT''], SetEnv ''BASE_PATH'' (JStr ''/tmp'')]"]
    load_fst_memo [of example_world "fresh Map.empty"]
  by (simp add: example_load)

subsection \<open>Composite coercers\<close>







text \<open>
  C7. \<open>getNumber\<close> and \<open>getString\<close> run their coercer (\<open>mapToNumber\<close>, \<open>mapToString\<close>)
  on the value \<open>get\<close> resolves exactly when that value is truthy; a falsy one is
  returned as it is. In particular, when a direct key is absent a falsy default (0, the
  empty string, \<open>undefined\<close>) comes back unchanged.
\<close>

theorem getNumber_getString_gate:
  "(truthy (fst (get w s key d)) \<longrightarrow>
      fst (getNumber w s key d) = JNum (mapToNumber w (fst (get w s key d)))
      \<and> fst (getString w s key d) = JStr (mapToString w (fst (get w s key d))))
   \<and> (\<not> truthy (fst (get w s key d)) \<longrightarrow>
      fst (getNumber w s key d) = fst (get w s key d)
      \<and> fst (getString w s key d) = fst (get w s key d))
   \<and> (direct_key key \<and> env (snd (get w s key d)) key = None \<and> \<not> truthy d \<longrightarrow>
      fst (getNumber w s key d) = d \<and> fst (getString w s key d) = d)"
proof -
  let ?v = "fst (get w s key d)"
  have n: "fst (getNumber w s key d) = (if truthy ?v then JNum (mapToNumber w ?v) else ?v)"
    by (simp add: getNumber_def Let_def split: prod.splits)
  have t: "fst (getString w s key d) = (if truthy ?v then JStr (mapToString w ?v) else ?v)"
    by (simp add: getString_def Let_def split: prod.splits)
  have a: "direct_key key \<and> env (snd (get w s key d)) key = None \<longrightarrow> ?v = d"
    by (simp add: get_eq grab_direct_absent)
  from n t a show ?thesis by auto
qed

theorem getNumber_getString_gate_witness:
  "fst (getNumber example_world (fresh Map.empty) ''ABSENT'' (JNum (Fin 0))) = JNum (Fin 0)
   \<and> fst (getString example_world (fresh Map.empty) ''ABSENT'' (JStr [])) = JStr []
   \<and> fst (getNumber example_world (fresh Map.empty) ''ABSENT'' JUndefined) = JUndefined
   \<and> fst (getString example_world (fresh Map.empty) ''ABSENT'' JUndefined) = JUndefined
   \<and> fst (getNumber example_world (fresh Map.empty) ''PORT'' JUndefined) = JNum (Fin 11)
   \<and> fst (getString example_world (fresh Map.empty) ''PORT'' JUndefined) = JStr ''11''"
proof -
  have g: "fst (get example_world (fresh Map.empty) ''ABSENT'' d) = d" for d
    by (simp add: get_eq grab_direct_absent direct_example_keys example_load example_file_def)
  have p: "fst (get example_world (fresh Map.empty) ''PORT'' JUndefined) = JStr ''11''"
    by (simp add: get_eq grab_present example_load example_file_def)
  from getNumber_getString_gate [of example_world "fresh Map.empty" "''ABSENT''" "JNum (Fin 0)"]
    getNumber_getString_gate [of example_world "fresh Map.empty" "''ABSENT''" "JStr []"]
    getNumber_getString_gate [of example_world "fresh Map.empty" "''ABSENT''" JUndefined]
    getNumber_getString_gate [of example_world "fresh Map.empty" "''PORT''" JUndefined]
  show ?thesis
    by (simp add: g p mapToNumber_def toNumber_def mapToString_def toString_JStr trim_ws_def
          is_space_def example_world_fields example_strToNum_def)
qed

text \<open>
  C8. \<open>getBoolean\<close> turns the resolved string \<open>"false"\<close> into \<open>false\<close> and \<open>"true"\<close> into
  \<open>true\<close>, any other truthy resolved value into \<open>true\<close>, and returns a falsy resolved
  value (\<open>false\<close> itself among them) unchanged.
\<close>

theorem getBoolean_cases:
  "(fst (get w s key d) = JStr ''false'' \<longrightarrow> fst (getBoolean w s key d) = JBool False)
   \<and> (fst (get w s key d) = JStr ''true'' \<longrightarrow> fst (getBoolean w s key d) = JBool True)
   \<and> (truthy (fst (get w s key d)) \<and> fst (get w s key d) \<noteq> JStr ''false'' \<longrightarrow>
        fst (getBoolean w s key d) = JBool True)
   \<and> (\<not> truthy (fst (get w s key d)) \<longrightarrow> fst (getBoolean w s key d) = fst (get w s key d))"
  by (auto simp: getBoolean_def Let_def split: prod.splits)

theorem getBoolean_cases_witness:
  "fst (getBoolean example_world (fresh [''K'' \<mapsto> ''false'']) ''K'' JUndefined) = JBool False
   \<and> fst (getBoolean example_world (fresh [''K'' \<mapsto> ''true'']) ''K'' JUndefined) = JBool True
   \<and> fst (getBoolean example_world (fresh [''K'' \<mapsto> ''yes'']) ''K'' JUndefined) = JBool True
   \<and> fst (getBoolean example_world (fresh Map.empty) ''K'' (JBool False)) = JBool False
   \<and> fst (getBoolean example_world (fresh Map.empty) ''K'' JUndefined) = JUndefined"
  using getBoolean_cases [of example_world "fresh [''K'' \<mapsto> ''false'']" "''K''" JUndefined]
    getBoolean_cases [of example_world "fresh [''K'' \<mapsto> ''true'']" "''K''" JUndefined]
    getBoolean_cases [of example_world "fresh [''K'' \<mapsto> ''yes'']" "''K''" JUndefined]
    getBoolean_cases [of example_world "fresh Map.empty" "''K''" "JBool False"]
    getBoolean_cases [of example_world "fresh Map.empty" "''K''" JUndefined]
  by (simp add: get_eq grab_reads_store reads_store_direct direct_example_keys example_load
        example_file_def)

subsection \<open>Environment predicates\<close>

text \<open>
  C10. When \<open>NODE_ENV\<close> is absent from the store, \<open>is(name)\<close> compares the lower case
  of \<open>undefined\<close>, the empty string, with the lower case of \<open>name\<close>: \<open>is('')\<close> and
  \<open>is(undefined)\<close> are true; \<open>isTest()\<close>, \<open>isDevelopment()\<close>, \<open>isProduction()\<close> and
  \<open>isLocal()\<close> are false.
\<close>

theorem is_env_without_NODE_ENV:
  assumes "env (snd (load w s)) ''NODE_ENV'' = None"
  shows "(\<forall>name. fst (is_env w s name) \<longleftrightarrow> toLower w JUndefined = toLower w name)
       \<and> toLower w JUndefined = []
       \<and> fst (is_env w s (JStr []))
       \<and> fst (is_env w s JUndefined)
       \<and> \<not> fst (isTest w s)
       \<and> \<not> fst (isDevelopment w s)
       \<and> \<not> fst (isProduction w s)
       \<and> \<not> fst (isLocal w s)"
proof -
  have i: "is_env w s' name = (toLower w JUndefined = toLower w name, snd (load w s'))"
    if "env (snd (load w s')) ''NODE_ENV'' = None" for s' name
    using that by (simp add: is_env_def get_eq grab_direct_absent direct_fixed_keys)
  have u: "toLower w JUndefined = []"
    by (simp add: toLower_def toString_def)
  have n: "toLower w (JStr (c # cs)) \<noteq> []" for c cs
    by (simp add: toLower_def toString_def)
  have a': "env (snd (load w (snd (load w s)))) ''NODE_ENV'' = None"
    using assms by (simp add: load_snd_idem)
  show ?thesis
    using i [OF assms] i [OF a'] u n
    by (simp add: isTest_def isDevelopment_def isProduction_def isLocal_def toLower_def
          toString_def)
qed

theorem is_env_without_NODE_ENV_witness:
  "env (snd (load example_world (fresh Map.empty))) ''NODE_ENV'' = None
   \<and> fst (is_env example_world (fresh Map.empty) (JStr []))
   \<and> fst (is_env example_world (fresh Map.empty) JUndefined)
   \<and> \<not> fst (isTest example_world (fresh Map.empty))
   \<and> \<not> fst (isDevelopment example_world (fresh Map.empty))
   \<and> \<not> fst (isProduction example_world (fresh Map.empty))
   \<and> \<not> fst (isLocal example_world (fresh Map.empty))"
proof -
  have h: "env (snd (load example_world (fresh Map.empty))) ''NODE_ENV'' = None"
    by (simp add: example_load example_file_def)
  from is_env_without_NODE_ENV [OF h] h show ?thesis by blast
qed

subsection \<open>Derived value builders\<close>

text \<open>
  C4. With no \<open>API_VERSION\<close> in the store, \<open>apiVersion\<close> coerces the option \<open>version\<close>
  (default \<open>1.0.0\<close>) and, when \<open>semver.coerce\<close> yields a version, returns the prefix
  (default \<open>v\<close>) followed by \<open>major.minor.patch\<close> if \<open>patch\<close> is set, else by
  \<open>major.minor\<close> if \<open>minor\<close> is set, else by \<open>major\<close>. Where \<open>semver.coerce\<close> reads
  \<open>2.3.4\<close> as 2, 3, 4: \<open>apiVersion({version: '2.3.4'})\<close> is \<open>v2\<close>, with
  \<open>{minor: true}\<close> it is \<open>v2.3\<close>, with \<open>{patch: true}\<close> it is \<open>v2.3.4\<close>.
\<close>

theorem apiVersion_format:
  assumes "env (snd (load w s)) ''API_VERSION'' = None"
  shows "(\<forall>v. coerce w (merged ''1.0.0'' (version optns)) = Some v \<longrightarrow>
            fst (apiVersion w s optns) =
              Inr (merged ''v'' (prefix optns) @
                   format_version v (merged False (allow_minor optns))
                                    (merged False (allow_patch optns))))
       \<and> (coerce w ''2.3.4'' = Some \<lparr>major = 2, minor = 3, patch = 4\<rparr> \<longrightarrow>
            fst (apiVersion w s \<lparr>version = Some ''2.3.4'', prefix = None, allow_major = None,
                                 allow_minor = None, allow_patch = None\<rparr>) = Inr ''v2''
          \<and> fst (apiVersion w s \<lparr>version = Some ''2.3.4'', prefix = None, allow_major = None,
                                 allow_minor = Some True, allow_patch = None\<rparr>) = Inr ''v2.3''
          \<and> fst (apiVersion w s \<lparr>version = Some ''2.3.4'', prefix = None, allow_major = None,
                                 allow_minor = None, allow_patch = Some True\<rparr>) = Inr ''v2.3.4'')"
proof -
  have a: "coerce w (merged ''1.0.0'' (version optns)) = Some v \<Longrightarrow>
            fst (apiVersion w s optns) =
              Inr (merged ''v'' (prefix optns) @
                   format_version v (merged False (allow_minor optns))
                                    (merged False (allow_patch optns)))" for v
    using apiVersion_eq [OF assms] by simp
  have b: "fst (apiVersion w s \<lparr>version = Some ''2.3.4'', prefix = None, allow_major = None,
                                 allow_minor = mi, allow_patch = pa\<rparr>)
           = Inr (''v'' @ format_version \<lparr>major = 2, minor = 3, patch = 4\<rparr>
                            (merged False mi) (merged False pa))"
    if "coerce w ''2.3.4'' = Some \<lparr>major = 2, minor = 3, patch = 4\<rparr>" for mi pa
    using that apiVersion_eq [OF assms, of "\<lparr>version = Some ''2.3.4'', prefix = None,
                                 allow_major = None, allow_minor = mi, allow_patch = pa\<rparr>"]
    by (simp add: merged_def)
  show ?thesis
    using a b by (simp add: format_version_def merged_def show_nat_234)
qed

theorem apiVersion_format_witness:
  "env (snd (load example_world (fresh Map.empty))) ''API_VERSION'' = None
   \<and> coerce example_world ''2.3.4'' = Some \<lparr>major = 2, minor = 3, patch = 4\<rparr>
   \<and> fst (apiVersion example_world (fresh Map.empty)
            \<lparr>version = Some ''2.3.4'', prefix = None, allow_major = None,
             allow_minor = None, allow_patch = None\<rparr>) = Inr ''v2''
   \<and> fst (apiVersion example_world (fresh Map.empty)
            \<lparr>version = Some ''2.3.4'', prefix = None, allow_major = None,
             allow_minor = Some True, allow_patch = None\<rparr>) = Inr ''v2.3''
   \<and> fst (apiVersion example_world (fresh Map.empty)
            \<lparr>version = Some ''2.3.4'', prefix = None, allow_major = None,
             allow_minor = None, allow_patch = Some True\<rparr>) = Inr ''v2.3.4''
   \<and> fst (apiVersion example_world (fresh Map.empty)
            \<lparr>version = Some ''2.3.4'', prefix = Some ''api-'', allow_major = None,
             allow_minor = Some True, allow_patch = Some True\<rparr>) = Inr ''api-2.3.4''
   \<and> fst (apiVersion example_world (fresh Map.empty)
            \<lparr>version = None, prefix = None, allow_major = None,
             allow_minor = None, allow_patch = None\<rparr>) = Inr ''v1''"
proof -
  have h: "env (snd (load example_world (fresh Map.empty))) ''API_VERSION'' = None"
    by (simp add: example_load example_file_def)
  have c: "coerce example_world ''2.3.4'' = Some \<lparr>major = 2, minor = 3, patch = 4\<rparr>"
    by (simp add: example_world_fields example_coerce_def)
  have c1: "coerce example_world ''1.0.0'' = Some \<lparr>major = 1, minor = 0, patch = 0\<rparr>"
    by (simp add: example_world_fields example_coerce_def)
  have s1: "show_nat (Suc 0) = ''1''" by code_simp
  show ?thesis
    using h c apiVersion_format [OF h, of "\<lparr>version = Some ''2.3.4'', prefix = Some ''api-'',
             allow_major = None, allow_minor = Some True, allow_patch = Some True\<rparr>"]
      apiVersion_format [OF h, of "\<lparr>version = None, prefix = None,
             allow_major = None, allow_minor = None, allow_patch = None\<rparr>"]
    by (simp add: c1 merged_def format_version_def show_nat_234 s1)
qed

text \<open>
  C2, where the code departs from it. When \<open>semver.coerce\<close> returns \<open>null\<close> for the
  string \<open>apiVersion\<close> gives it (text without a version in it), \<open>apiVersion\<close> does not
  hand a sentinel back: it throws a \<open>TypeError\<close>. For example with
  \<open>API_VERSION = "latest"\<close> in the store, or with the option \<open>version: 'next'\<close>.
\<close>

theorem apiVersion_throws_when_coerce_fails:
  assumes "coerce_value w (fst (getString w s ''API_VERSION''
             (JStr (merged ''1.0.0'' (version optns))))) = None"
  shows "fst (apiVersion w s optns) = Inl TypeError"
  using assms by (auto simp: apiVersion_def Let_def split: prod.splits)

theorem apiVersion_throws_when_coerce_fails_witness:
  "fst (apiVersion example_world (fresh [''API_VERSION'' \<mapsto> ''latest''])
         \<lparr>version = None, prefix = None, allow_major = None, allow_minor = None,
          allow_patch = None\<rparr>)
     = Inl TypeError
   \<and> fst (apiVersion example_world (fresh Map.empty)
         \<lparr>version = Some ''next'', prefix = None, allow_major = None, allow_minor = None,
          allow_patch = None\<rparr>)
     = Inl TypeError"
proof -
  have a: "coerce_value example_world
             (fst (getString example_world (fresh [''API_VERSION'' \<mapsto> ''latest''])
                ''API_VERSION'' (JStr (merged ''1.0.0'' (version \<lparr>version = None, prefix = None,
                   allow_major = None, allow_minor = None, allow_patch = None\<rparr>))))) = None"
    by (simp add: getString_fixed example_load example_file_def coerce_value_def
          example_world_fields example_coerce_def)
  have b: "coerce_value example_world
             (fst (getString example_world (fresh Map.empty)
                ''API_VERSION'' (JStr (merged ''1.0.0'' (version \<lparr>version = Some ''next'',
                   prefix = None, allow_major = None, allow_minor = None,
                   allow_patch = None\<rparr>))))) = None"
    by (simp add: getString_fixed example_load example_file_def coerce_value_def merged_def
          example_world_fields example_coerce_def)
  from apiVersion_throws_when_coerce_fails [OF a] apiVersion_throws_when_coerce_fails [OF b]
  show ?thesis by simp
qed

text \<open>
  C9. \<open>getCountryCode\<close> never throws. With \<open>locale\<close> the string \<open>getLocale()\<close> returns,
  its result is the store's \<open>DEFAULT_COUNTRY_CODE\<close> when that is set, whatever the
  locale; otherwise the last part of the locale split at hyphens when there is more
  than one part, else the last part of the locale split at underscores when there is
  more than one part, else the default country code (\<open>TZ\<close> when none is given).
  So \<open>en_US\<close> gives \<open>US\<close>, \<open>en-GB\<close> gives \<open>GB\<close>, and an override \<open>KE\<close> gives \<open>KE\<close>.
\<close>

theorem getCountryCode_derivation:
  "\<exists>locale. fst (getLocale w s None) = JStr locale
     \<and> fst (getCountryCode w s dcc) =
         Inr (JStr (case env (snd (getCountryCode w s dcc)) ''DEFAULT_COUNTRY_CODE'' of
                      Some v \<Rightarrow> v
                    | None \<Rightarrow> country_of locale (merged ''TZ'' dcc)))
     \<and> (length (split_str locale CHR ''-'') > 1 \<longrightarrow>
          country_of locale (merged ''TZ'' dcc) = last (split_str locale CHR ''-''))
     \<and> (length (split_str locale CHR ''-'') \<le> 1 \<and> length (split_str locale CHR ''_'') > 1 \<longrightarrow>
          country_of locale (merged ''TZ'' dcc) = last (split_str locale CHR ''_''))
     \<and> (length (split_str locale CHR ''-'') \<le> 1 \<and> length (split_str locale CHR ''_'') \<le> 1 \<longrightarrow>
          country_of locale (merged ''TZ'' dcc) = (case dcc of None \<Rightarrow> ''TZ'' | Some c \<Rightarrow> c))"
proof -
  let ?store = "env (snd (load w s))"
  let ?loc = "runtime_locale w ?store"
  have l: "fst (getLocale w s None) = JStr ?loc"
    by (simp add: getLocale_eq)
  have c: "getCountryCode w s dcc =
             (Inr (JStr (case ?store ''DEFAULT_COUNTRY_CODE'' of
                           Some v \<Rightarrow> v
                         | None \<Rightarrow> country_of ?loc (merged ''TZ'' dcc))),
              snd (load w s))"
    by (rule getCountryCode_eq)
  have p: "country_of ?loc (merged ''TZ'' dcc) =
             (if length (split_str ?loc CHR ''-'') > 1 then last (split_str ?loc CHR ''-'')
              else if length (split_str ?loc CHR ''_'') > 1
                   then last (split_str ?loc CHR ''_'')
              else (case dcc of None \<Rightarrow> ''TZ'' | Some c \<Rightarrow> c))"
    by (simp add: country_of_def merged_def)
  from l c p show ?thesis
    by (intro exI [of _ ?loc]) (auto simp: not_less)
qed

theorem getCountryCode_derivation_witness:
  "fst (getLocale example_world (fresh Map.empty) None) = JStr ''en_US''
   \<and> fst (getCountryCode example_world (fresh Map.empty) None) = Inr (JStr ''US'')
   \<and> fst (getLocale example_world (fresh [''DEFAULT_LOCALE'' \<mapsto> ''en-GB'']) None)
       = JStr ''en-GB''
   \<and> fst (getCountryCode example_world (fresh [''DEFAULT_LOCALE'' \<mapsto> ''en-GB'']) None)
       = Inr (JStr ''GB'')
   \<and> fst (getCountryCode example_world (fresh [''DEFAULT_LOCALE'' \<mapsto> ''sw'']) None)
       = Inr (JStr ''TZ'')
   \<and> fst (getCountryCode example_world (fresh [''DEFAULT_LOCALE'' \<mapsto> ''sw'']) (Some ''UG''))
       = Inr (JStr ''UG'')
   \<and> fst (getCountryCode example_world (fresh [''DEFAULT_LOCALE'' \<mapsto> ''sr-Latn_RS'']) None)
       = Inr (JStr ''Latn_RS'')
   \<and> fst (getCountryCode example_world (fresh [''DEFAULT_COUNTRY_CODE'' \<mapsto> ''KE'']) None)
       = Inr (JStr ''KE'')
   \<and> fst (getCountryCode example_world
            (fresh [''DEFAULT_LOCALE'' \<mapsto> ''en-GB'', ''DEFAULT_COUNTRY_CODE'' \<mapsto> ''KE'']) None)
       = Inr (JStr ''KE'')"
  using getCountryCode_derivation [of example_world "fresh Map.empty" None]
    getCountryCode_derivation [of example_world "fresh [''DEFAULT_LOCALE'' \<mapsto> ''en-GB'']" None]
  by (simp add: getLocale_eq getCountryCode_eq example_load example_file_def runtime_locale_def
        example_world_fields country_of_def split_str_def merged_def)

end
